theory Spec2Isabelle
  imports Main
begin

section \<open>JavaScript values\<close>

text \<open>
  The client and the formatters work on dynamically typed data (\<^verbatim>\<open>Record<string, unknown>\<close>,
  \<^verbatim>\<open>unknown\<close>). A value is one of the JSON shapes or \<^verbatim>\<open>undefined\<close>. Numbers are
  modelled as integers, printed in decimal. An object is its list of own properties in
  key order (the order \<^verbatim>\<open>Object.keys\<close> yields), keys distinct.
\<close>

datatype jsval =
    JUndefined
  | JNull
  | JBool bool
  | JNum int
  | JStr string
  | JArr "jsval list"
  | JObj "(string \<times> jsval) list"

type_synonym jsobj = "(string \<times> jsval) list"

text \<open>Truthiness, as used by \<^verbatim>\<open>||\<close>, \<^verbatim>\<open>&&\<close>, \<^verbatim>\<open>!\<close> and \<^verbatim>\<open>? :\<close>.\<close>

fun truthy :: "jsval \<Rightarrow> bool" where
  "truthy JUndefined = False"
| "truthy JNull = False"
| "truthy (JBool b) = b"
| "truthy (JNum n) = (n \<noteq> 0)"
| "truthy (JStr s) = (s \<noteq> [])"
| "truthy (JArr vs) = True"
| "truthy (JObj ps) = True"

text \<open>\<^verbatim>\<open>a || b\<close> and \<^verbatim>\<open>a ?? b\<close>.\<close>

definition js_or :: "jsval \<Rightarrow> jsval \<Rightarrow> jsval" where
  "js_or a b = (if truthy a then a else b)"

definition nullish :: "jsval \<Rightarrow> bool" where
  "nullish v = (v = JUndefined \<or> v = JNull)"

definition js_nullish_or :: "jsval \<Rightarrow> jsval \<Rightarrow> jsval" where
  "js_nullish_or a b = (if nullish a then b else a)"

text \<open>Reading a property \<^verbatim>\<open>o.k\<close> of an object given by its property list.\<close>

definition field :: "jsobj \<Rightarrow> string \<Rightarrow> jsval" where
  "field ps k = (case map_of ps k of None \<Rightarrow> JUndefined | Some v \<Rightarrow> v)"

text \<open>
  Reading a named property \<^verbatim>\<open>v.k\<close> of a value that is neither \<^verbatim>\<open>null\<close> nor
  \<^verbatim>\<open>undefined\<close> (there the read throws, which the callers model). The program reads
  only data properties such as \<^verbatim>\<open>message\<close> or \<^verbatim>\<open>uuid\<close> this way, which primitives and
  arrays do not have.
\<close>

fun get :: "jsval \<Rightarrow> string \<Rightarrow> jsval" where
  "get (JObj ps) k = field ps k"
| "get v k = JUndefined"

text \<open>Optional chaining \<^verbatim>\<open>v?.k\<close> and \<^verbatim>\<open>v?.[0]\<close>.\<close>

definition opt_get :: "jsval \<Rightarrow> string \<Rightarrow> jsval" where
  "opt_get v k = (if nullish v then JUndefined else get v k)"

fun index0 :: "jsval \<Rightarrow> jsval" where
  "index0 (JArr vs) = (case vs of [] \<Rightarrow> JUndefined | v # _ \<Rightarrow> v)"
| "index0 (JStr s) = (case s of [] \<Rightarrow> JUndefined | c # _ \<Rightarrow> JStr [c])"
| "index0 (JObj ps) = field ps ''0''"
| "index0 v = JUndefined"

definition opt_index0 :: "jsval \<Rightarrow> jsval" where
  "opt_index0 v = (if nullish v then JUndefined else index0 v)"

subsection \<open>Numbers and strings\<close>

definition digit_char :: "nat \<Rightarrow> char" where
  "digit_char d = ''0123456789'' ! d"

fun show_nat :: "nat \<Rightarrow> string" where
  "show_nat n =
     (if n < 10 then [digit_char n] else show_nat (n div 10) @ [digit_char (n mod 10)])"

declare show_nat.simps [simp del]

text \<open>\<^verbatim>\<open>String(n)\<close> for an integer \<^verbatim>\<open>n\<close>.\<close>

definition show_int :: "int \<Rightarrow> string" where
  "show_int i = (if i < 0 then CHR ''-'' # show_nat (nat (- i)) else show_nat (nat i))"

text \<open>\<^verbatim>\<open>Array.prototype.join\<close> on strings.\<close>

fun join :: "string \<Rightarrow> string list \<Rightarrow> string" where
  "join sep [] = []"
| "join sep [x] = x"
| "join sep (x # y # zs) = x @ sep @ join sep (y # zs)"

text \<open>
  \<^verbatim>\<open>String(v)\<close>, also what a template literal \<^verbatim>\<open>${v}\<close> inserts. Inside an array,
  \<^verbatim>\<open>null\<close> and \<^verbatim>\<open>undefined\<close> print as the empty string.
\<close>

fun js_String :: "jsval \<Rightarrow> string" where
  "js_String JUndefined = ''undefined''"
| "js_String JNull = ''null''"
| "js_String (JBool b) = (if b then ''true'' else ''false'')"
| "js_String (JNum n) = show_int n"
| "js_String (JStr s) = s"
| "js_String (JArr vs) =
     join '','' (map (\<lambda>v. if v = JUndefined \<or> v = JNull then [] else js_String v) vs)"
| "js_String (JObj ps) = ''[object Object]''"

text \<open>\<^verbatim>\<open>String.prototype.trim\<close>, on the ASCII white space characters.\<close>

definition is_space :: "char \<Rightarrow> bool" where
  "is_space c = (c \<in> set [CHR 0x09, CHR 0x0A, CHR 0x0B, CHR 0x0C, CHR 0x0D, CHR '' ''])"

definition trim :: "string \<Rightarrow> string" where
  "trim s = rev (dropWhile is_space (rev (dropWhile is_space s)))"

text \<open>\<^verbatim>\<open>c.toUpperCase()\<close> on one ASCII character.\<close>

definition toUpperCase_char :: "char \<Rightarrow> char" where
  "toUpperCase_char c =
     (let n = (of_char c :: nat) in if 97 \<le> n \<and> n \<le> 122 then char_of (n - 32) else c)"

subsection \<open>JSON.stringify\<close>

text \<open>
  \<^verbatim>\<open>JSON.stringify(v)\<close> is modelled by the JSON document it writes, as a tree: a property
  whose value is \<^verbatim>\<open>undefined\<close> is left out of its object, and \<^verbatim>\<open>undefined\<close> inside an
  array is written as \<^verbatim>\<open>null\<close>. The text sent on the wire is the rendering of that tree.
\<close>

definition undefined_to_null :: "jsval \<Rightarrow> jsval" where
  "undefined_to_null v = (if v = JUndefined then JNull else v)"

primrec JSON_stringify :: "jsval \<Rightarrow> jsval" where
  "JSON_stringify JUndefined = JUndefined"
| "JSON_stringify JNull = JNull"
| "JSON_stringify (JBool b) = JBool b"
| "JSON_stringify (JNum n) = JNum n"
| "JSON_stringify (JStr s) = JStr s"
| "JSON_stringify (JArr vs) = JArr (map (\<lambda>v. undefined_to_null (JSON_stringify v)) vs)"
| "JSON_stringify (JObj ps) =
     JObj (filter (\<lambda>p. snd p \<noteq> JUndefined) (map (map_prod id JSON_stringify) ps))"





definition opt_num :: "int option \<Rightarrow> jsval" where
  "opt_num x = (case x of None \<Rightarrow> JUndefined | Some n \<Rightarrow> JNum n)"

section \<open>Errors\<close>

text \<open>\<^verbatim>\<open>parseInt\<close> yields a number or \<^verbatim>\<open>NaN\<close>.\<close>

datatype js_number = Number int | NaN

text \<open>
  What a \<^verbatim>\<open>throw\<close> can raise. The first three are built by the client with
  \<^verbatim>\<open>new CrmApiError(message, status)\<close>, \<^verbatim>\<open>new RateLimitError(message, retryAfter)\<close>
  and \<^verbatim>\<open>new AuthenticationError(message)\<close>; \<open>TypeError\<close> and \<open>SyntaxError\<close> are the
  platform's own errors, with the platform's message.
\<close>

datatype thrown =
    CrmApiError jsval nat
  | RateLimitError string js_number
  | AuthenticationError string
  | MissingCredentialsError string
  | TypeError string
  | SyntaxError string

datatype error_kind = MissingCredentials | Authentication | RateLimit | ApiError | Unknown

text \<open>
  Modelled from the spec: the error classes (\<^verbatim>\<open>utils/errors.ts\<close>) are not among the sources.
  The taxonomy of the specification gives each class its kind, its retryability (only a
  rate limit is retryable), its status code and its retry delay; the three client errors
  are instances of \<^verbatim>\<open>CrmApiError\<close>, whose \<^verbatim>\<open>message\<close> is the constructor's first argument
  as a string.
\<close>

fun kind :: "thrown \<Rightarrow> error_kind" where
  "kind (CrmApiError m sc) = ApiError"
| "kind (RateLimitError m r) = RateLimit"
| "kind (AuthenticationError m) = Authentication"
| "kind (MissingCredentialsError m) = MissingCredentials"
| "kind (TypeError m) = Unknown"
| "kind (SyntaxError m) = Unknown"

fun retryable :: "thrown \<Rightarrow> bool" where
  "retryable (RateLimitError m r) = True"
| "retryable e = False"


fun retryAfterSeconds :: "thrown \<Rightarrow> js_number option" where
  "retryAfterSeconds (RateLimitError m r) = Some r"
| "retryAfterSeconds e = None"


fun error_message :: "thrown \<Rightarrow> string" where
  "error_message (CrmApiError m sc) = js_String m"
| "error_message (RateLimitError m r) = m"
| "error_message (AuthenticationError m) = m"
| "error_message (MissingCredentialsError m) = m"
| "error_message (TypeError m) = m"
| "error_message (SyntaxError m) = m"

section \<open>The request gateway\<close>

record TenantCredentials =
  accessToken :: "string option"
  apiVersion :: "string option"

text \<open>The second argument of the platform's \<^verbatim>\<open>fetch\<close>, and the call as a whole.\<close>

record RequestInit =
  init_method :: "string option"
  init_body :: "jsval option"
  init_headers :: "(string \<times> string) list option"

record http_call =
  call_url :: string
  call_method :: "string option"
  call_body :: "jsval option"
  call_headers :: "(string \<times> string) list"

text \<open>An upstream response, received in full.\<close>

record Response =
  status :: nat
  headers_get :: "string \<Rightarrow> string option"
  body_text :: string

definition ok :: "Response \<Rightarrow> bool" where
  "ok r = (200 \<le> status r \<and> status r \<le> 299)"

text \<open>
  The collaborators of the modelled code, taken as parameters. The platform: \<^verbatim>\<open>fetch\<close>
  (\<open>Inl\<close> is the message of the \<^verbatim>\<open>TypeError\<close> of a failed call), \<^verbatim>\<open>JSON.parse\<close> (\<open>Inl\<close>
  is the message of its \<^verbatim>\<open>SyntaxError\<close>), \<^verbatim>\<open>parseInt(s, 10)\<close>, and the message of the
  \<^verbatim>\<open>TypeError\<close> raised by reading a property of the given value when it is \<^verbatim>\<open>null\<close> or
  \<^verbatim>\<open>undefined\<close>, or by calling \<^verbatim>\<open>map\<close> on it when it has none. From the repository: the
  Markdown rendering of data that is not a paginated collection (arrays and single
  objects), and \<^verbatim>\<open>formatErrorForLogging\<close> (\<^verbatim>\<open>utils/errors.ts\<close>, not among the sources).
\<close>

record env =
  env_fetch :: "http_call \<Rightarrow> string + Response"
  env_JSON_parse :: "string \<Rightarrow> string + jsval"
  env_parseInt :: "string \<Rightarrow> js_number"
  env_type_error :: "jsval \<Rightarrow> string"
  env_formatOtherAsMarkdown :: "jsval \<Rightarrow> string \<Rightarrow> string"
  env_formatErrorForLogging :: "thrown \<Rightarrow> jsval"

definition API_BASE_URL :: string where
  "API_BASE_URL = ''https://api.gusto.com/v1''"

definition getAuthHeaders :: "TenantCredentials \<Rightarrow> thrown + (string \<times> string) list" where
  "getAuthHeaders credentials =
     (case accessToken credentials of
        None \<Rightarrow> Inl (AuthenticationError
                  ''No credentials provided. Include X-Gusto-Access-Token header.'')
      | Some token \<Rightarrow>
          if token = [] then
            Inl (AuthenticationError
                  ''No credentials provided. Include X-Gusto-Access-Token header.'')
          else Inr [(''Authorization'', ''Bearer '' @ token),
                    (''Content-Type'', ''application/json'')])"

text \<open>Object spread \<^verbatim>\<open>{ ...a, ...b }\<close> on string-valued objects.\<close>

fun assign :: "('k \<times> 'v) list \<Rightarrow> 'k \<Rightarrow> 'v \<Rightarrow> ('k \<times> 'v) list" where
  "assign [] k v = [(k, v)]"
| "assign ((k', v') # ps) k v = (if k' = k then (k, v) # ps else (k', v') # assign ps k v)"

definition spread :: "('k \<times> 'v) list \<Rightarrow> ('k \<times> 'v) list \<Rightarrow> ('k \<times> 'v) list" where
  "spread a b = foldl (\<lambda>acc p. assign acc (fst p) (snd p)) a b"

text \<open>
  The failure branches of \<^verbatim>\<open>request\<close>. For a status of 429 the retry delay is
  \<^verbatim>\<open>retryAfter ? parseInt(retryAfter, 10) : 60\<close>.
\<close>

definition retryAfter_seconds :: "env \<Rightarrow> Response \<Rightarrow> js_number" where
  "retryAfter_seconds E response =
     (case headers_get response ''Retry-After'' of
        None \<Rightarrow> Number 60
      | Some retryAfter \<Rightarrow> if retryAfter = [] then Number 60 else env_parseInt E retryAfter)"

text \<open>
  The message of the error for any other response that is not ok: the \<^verbatim>\<open>try\<close> block
  parses the body and evaluates
  \<^verbatim>\<open>errorJson.message || errorJson.error || errorJson.errors?.[0]?.message || message\<close>;
  when the parse throws, or the body is \<^verbatim>\<open>null\<close> and the first read throws, the
  \<^verbatim>\<open>catch\<close> keeps the default.
\<close>

definition default_message :: "Response \<Rightarrow> jsval" where
  "default_message response = JStr (''API error: '' @ show_nat (status response))"

definition api_error_message :: "env \<Rightarrow> Response \<Rightarrow> jsval" where
  "api_error_message E response =
     (case env_JSON_parse E (body_text response) of
        Inl syntax_error \<Rightarrow> default_message response
      | Inr errorJson \<Rightarrow>
          if nullish errorJson then default_message response
          else js_or (get errorJson ''message'')
                 (js_or (get errorJson ''error'')
                    (js_or (opt_get (opt_index0 (get errorJson ''errors'')) ''message'')
                       (default_message response))))"

definition handle_response :: "env \<Rightarrow> Response \<Rightarrow> thrown + jsval" where
  "handle_response E response =
     (if status response = 429 then
        Inl (RateLimitError ''Rate limit exceeded'' (retryAfter_seconds E response))
      else if status response = 401 \<or> status response = 403 then
        Inl (AuthenticationError ''Authentication failed. Check your API credentials.'')
      else if \<not> ok response then
        Inl (CrmApiError (api_error_message E response) (status response))
      else if status response = 204 then Inr JUndefined
      else (case env_JSON_parse E (body_text response) of
              Inl m \<Rightarrow> Inl (SyntaxError m)
            | Inr v \<Rightarrow> Inr v))"

text \<open>
  \<^verbatim>\<open>request(endpoint, options)\<close>. The state is the log of the calls made to the upstream
  API. The headers are computed before \<^verbatim>\<open>fetch\<close> is called, so a client without a token
  throws without calling it.
\<close>

definition request ::
  "env \<Rightarrow> TenantCredentials \<Rightarrow> string \<Rightarrow> RequestInit \<Rightarrow> http_call list
     \<Rightarrow> (thrown + jsval) \<times> http_call list" where
  "request E credentials endpoint options log =
     (case getAuthHeaders credentials of
        Inl e \<Rightarrow> (Inl e, log)
      | Inr auth \<Rightarrow>
          (let call = \<lparr> call_url = API_BASE_URL @ endpoint,
                        call_method = init_method options,
                        call_body = init_body options,
                        call_headers =
                          spread auth (case init_headers options of None \<Rightarrow> [] | Some h \<Rightarrow> h) \<rparr>
           in case env_fetch E call of
                Inl m \<Rightarrow> (Inl (TypeError m), log @ [call])
              | Inr response \<Rightarrow> (handle_response E response, log @ [call])))"

definition no_options :: RequestInit where
  "no_options = \<lparr> init_method = None, init_body = None, init_headers = None \<rparr>"

section \<open>The client\<close>

subsection \<open>Employees\<close>

record PaginationParams =
  page :: "int option"
  per :: "int option"

record ListEmployeesParams = PaginationParams +
  terminated :: "bool option"

record 'a PaginatedResponse =
  items :: "'a list"
  count :: nat
  total :: "int option"
  hasMore :: bool
  nextPage :: "int option"

text \<open>\<^verbatim>\<open>x || d\<close> on an optional number: \<^verbatim>\<open>undefined\<close> and \<^verbatim>\<open>0\<close> are falsy.\<close>

definition num_or :: "int option \<Rightarrow> int \<Rightarrow> int" where
  "num_or x d = (case x of None \<Rightarrow> d | Some n \<Rightarrow> if n \<noteq> 0 then n else d)"

text \<open>\<^verbatim>\<open>params?.page\<close>, \<^verbatim>\<open>params?.per\<close> and \<^verbatim>\<open>params?.terminated\<close>.\<close>

definition params_page :: "ListEmployeesParams option \<Rightarrow> int option" where
  "params_page params = (case params of None \<Rightarrow> None | Some p \<Rightarrow> page p)"

definition params_per :: "ListEmployeesParams option \<Rightarrow> int option" where
  "params_per params = (case params of None \<Rightarrow> None | Some p \<Rightarrow> per p)"

definition params_terminated :: "ListEmployeesParams option \<Rightarrow> bool option" where
  "params_terminated params = (case params of None \<Rightarrow> None | Some p \<Rightarrow> terminated p)"

text \<open>
  \<^verbatim>\<open>URLSearchParams\<close>: \<^verbatim>\<open>set\<close> is \<open>assign\<close>; \<^verbatim>\<open>toString\<close> joins \<^verbatim>\<open>key=value\<close> with
  \<^verbatim>\<open>&\<close> (the keys and values written here need no escaping).
\<close>

definition URLSearchParams_toString :: "(string \<times> string) list \<Rightarrow> string" where
  "URLSearchParams_toString q = join ''&'' (map (\<lambda>p. fst p @ ''='' @ snd p) q)"

definition listEmployees_queryParams :: "ListEmployeesParams option \<Rightarrow> (string \<times> string) list" where
  "listEmployees_queryParams params =
     (let q0 = [];
          q1 = (case params_page params of
                  None \<Rightarrow> q0
                | Some n \<Rightarrow> if n \<noteq> 0 then assign q0 ''page'' (show_int n) else q0);
          q2 = (case params_per params of
                  None \<Rightarrow> q1
                | Some n \<Rightarrow> if n \<noteq> 0 then assign q1 ''per'' (show_int n) else q1);
          q3 = (case params_terminated params of
                  None \<Rightarrow> q2
                | Some t \<Rightarrow> assign q2 ''terminated'' (if t then ''true'' else ''false''))
      in q3)"

text \<open>\<^verbatim>\<open>data.map(f)\<close> where \<open>f\<close> may throw: the first failure ends the loop.\<close>

fun map_all :: "('a \<Rightarrow> 'e + 'b) \<Rightarrow> 'a list \<Rightarrow> 'e + 'b list" where
  "map_all f [] = Inr []"
| "map_all f (x # xs) =
     (case f x of
        Inl e \<Rightarrow> Inl e
      | Inr y \<Rightarrow> (case map_all f xs of Inl e \<Rightarrow> Inl e | Inr ys \<Rightarrow> Inr (y # ys)))"

subsection \<open>Entity mappers\<close>

text \<open>
  A mapper reads properties of its argument, which throws when the argument is \<^verbatim>\<open>null\<close> or
  \<^verbatim>\<open>undefined\<close>, and returns an object literal; a property read as \<^verbatim>\<open>undefined\<close> is still
  a key of the result. \<open>opt_map\<close> is \<^verbatim>\<open>xs?.map((x) => f(x))\<close>.
\<close>

definition type_error :: "env \<Rightarrow> jsval \<Rightarrow> thrown" where
  "type_error E v = TypeError (env_type_error E v)"

definition opt_map :: "env \<Rightarrow> (jsval \<Rightarrow> thrown + jsobj) \<Rightarrow> jsval \<Rightarrow> thrown + jsval" where
  "opt_map E f xs =
     (if nullish xs then Inr JUndefined
      else case xs of
             JArr vs \<Rightarrow> (case map_all f vs of
                           Inl e \<Rightarrow> Inl e
                         | Inr ys \<Rightarrow> Inr (JArr (map JObj ys)))
           | _ \<Rightarrow> Inl (type_error E xs))"

definition mapCompensation :: "env \<Rightarrow> jsval \<Rightarrow> thrown + jsobj" where
  "mapCompensation E c =
     (if nullish c then Inl (type_error E c)
      else Inr
       [(''uuid'', get c ''uuid''),
        (''jobUuid'', get c ''job_uuid''),
        (''rate'', get c ''rate''),
        (''paymentUnit'', get c ''payment_unit''),
        (''flsaStatus'', get c ''flsa_status''),
        (''effectiveDate'', get c ''effective_date''),
        (''adjustForMinimumWage'', get c ''adjust_for_minimum_wage''),
        (''minimumWages'', get c ''minimum_wages'')])"

definition mapGarnishment :: "env \<Rightarrow> jsval \<Rightarrow> thrown + jsobj" where
  "mapGarnishment E g =
     (if nullish g then Inl (type_error E g)
      else Inr
       [(''uuid'', get g ''uuid''),
        (''employeeUuid'', get g ''employee_uuid''),
        (''active'', get g ''active''),
        (''amount'', get g ''amount''),
        (''description'', get g ''description''),
        (''courtOrdered'', get g ''court_ordered''),
        (''times'', get g ''times''),
        (''recurring'', get g ''recurring''),
        (''annualMaximum'', get g ''annual_maximum''),
        (''payPeriodMaximum'', get g ''pay_period_maximum''),
        (''deductAsPercentage'', get g ''deduct_as_percentage'')])"

definition mapJob :: "env \<Rightarrow> jsval \<Rightarrow> thrown + jsobj" where
  "mapJob E j =
     (if nullish j then Inl (type_error E j)
      else case opt_map E (mapCompensation E) (get j ''compensations'') of
             Inl e \<Rightarrow> Inl e
           | Inr compensations \<Rightarrow> Inr
               [(''uuid'', get j ''uuid''),
                (''employeeUuid'', get j ''employee_uuid''),
                (''locationUuid'', get j ''location_uuid''),
                (''title'', get j ''title''),
                (''primary'', get j ''primary''),
                (''rate'', get j ''rate''),
                (''paymentUnit'', get j ''payment_unit''),
                (''currentCompensationUuid'', get j ''current_compensation_uuid''),
                (''hireDate'', get j ''hire_date''),
                (''compensations'', compensations)])"

definition mapEmployee :: "env \<Rightarrow> jsval \<Rightarrow> thrown + jsobj" where
  "mapEmployee E e =
     (if nullish e then Inl (type_error E e)
      else case opt_map E (mapJob E) (get e ''jobs'') of
             Inl x \<Rightarrow> Inl x
           | Inr jobs \<Rightarrow>
               (case opt_map E (mapGarnishment E) (get e ''garnishments'') of
                  Inl x \<Rightarrow> Inl x
                | Inr garnishments \<Rightarrow> Inr
                    [(''uuid'', get e ''uuid''),
                     (''companyUuid'', get e ''company_uuid''),
                     (''firstName'', get e ''first_name''),
                     (''middleName'', get e ''middle_name''),
                     (''lastName'', get e ''last_name''),
                     (''email'', get e ''email''),
                     (''dateOfBirth'', get e ''date_of_birth''),
                     (''ssn'', get e ''ssn''),
                     (''phone'', get e ''phone''),
                     (''preferredFirstName'', get e ''preferred_first_name''),
                     (''twoPercentShareholder'', get e ''two_percent_shareholder''),
                     (''onboarded'', get e ''onboarded''),
                     (''department'', get e ''department''),
                     (''terminated'', get e ''terminated''),
                     (''terminationDate'', get e ''termination_date''),
                     (''currentEmploymentStatus'', get e ''current_employment_status''),
                     (''workEmail'', get e ''work_email''),
                     (''homeAddress'',
                        if truthy (get e ''home_address'') then
                          JObj [(''street1'', get (get e ''home_address'') ''street_1''),
                                (''street2'', get (get e ''home_address'') ''street_2''),
                                (''city'', get (get e ''home_address'') ''city''),
                                (''state'', get (get e ''home_address'') ''state''),
                                (''zip'', get (get e ''home_address'') ''zip''),
                                (''country'', get (get e ''home_address'') ''country'')]
                        else JUndefined),
                     (''jobs'', jobs),
                     (''garnishments'', garnishments),
                     (''customFields'', get e ''custom_fields''),
                     (''paymentMethod'', get e ''payment_method''),
                     (''hasDirectDeposit'', get e ''has_direct_deposit'')]))"

definition listEmployees ::
  "env \<Rightarrow> TenantCredentials \<Rightarrow> string \<Rightarrow> ListEmployeesParams option \<Rightarrow> http_call list
     \<Rightarrow> (thrown + jsobj PaginatedResponse) \<times> http_call list" where
  "listEmployees E credentials companyId params log =
     (case request E credentials
             (''/companies/'' @ companyId @ ''/employees?''
                @ URLSearchParams_toString (listEmployees_queryParams params))
             no_options log of
        (Inl e, log') \<Rightarrow> (Inl e, log')
      | (Inr data, log') \<Rightarrow>
          (case data of
             JArr es \<Rightarrow>
               (case map_all (mapEmployee E) es of
                  Inl e \<Rightarrow> (Inl e, log')
                | Inr its \<Rightarrow>
                    (Inr \<lparr> items = its,
                           count = length its,
                           total = None,
                           hasMore = (int (length its) = num_or (params_per params) 25),
                           nextPage =
                             (if int (length its) = num_or (params_per params) 25
                              then Some (num_or (params_page params) 1 + 1) else None) \<rparr>,
                     log'))
           | _ \<Rightarrow> (Inl (type_error E data), log')))"








subsection \<open>Companies\<close>

text \<open>\<^verbatim>\<open>Partial<Company>\<close>: every field of the entity is optional.\<close>

record Company =
  uuid :: "string option"
  name :: "string option"
  tradeName :: "string option"
  ein :: "string option"
  entityType :: "string option"
  companyStatus :: "string option"
  tier :: "string option"
  isPartnerManaged :: "bool option"
  primarySignatory :: "jsval option"
  primaryPayrollAdmin :: "jsval option"
  locations :: "jsval option"






subsection \<open>Connection\<close>



subsection \<open>Holiday pay policy\<close>


section \<open>The pagination helper\<close>

definition PAGINATION_DEFAULTS_per :: int where
  "PAGINATION_DEFAULTS_per = 25"

definition PAGINATION_DEFAULTS_maxPer :: int where
  "PAGINATION_DEFAULTS_maxPer = 100"

record NormalizedParams =
  norm_per :: int
  norm_page :: "int option"

text \<open>
  \<^verbatim>\<open>normalizePaginationParams(params?, maxPer = PAGINATION_DEFAULTS.maxPer)\<close>: an argument
  left out is \<open>None\<close>.
\<close>

definition normalizePaginationParams ::
  "PaginationParams option \<Rightarrow> int option \<Rightarrow> NormalizedParams" where
  "normalizePaginationParams params maxPer =
     \<lparr> norm_per =
         min (num_or (case params of None \<Rightarrow> None | Some p \<Rightarrow> per p) PAGINATION_DEFAULTS_per)
             (case maxPer of None \<Rightarrow> PAGINATION_DEFAULTS_maxPer | Some m \<Rightarrow> m),
       norm_page = (case params of None \<Rightarrow> None | Some p \<Rightarrow> page p) \<rparr>"

definition emptyPaginatedResponse :: "'a PaginatedResponse" where
  "emptyPaginatedResponse =
     \<lparr> items = [], count = 0, total = None, hasMore = False, nextPage = None \<rparr>"

record PaginatedOptions =
  opt_total :: "int option"
  opt_hasMore :: "bool option"
  opt_nextPage :: "int option"

definition createPaginatedResponse :: "'a list \<Rightarrow> PaginatedOptions \<Rightarrow> 'a PaginatedResponse" where
  "createPaginatedResponse its options =
     \<lparr> items = its,
       count = length its,
       total = opt_total options,
       hasMore = (case opt_hasMore options of None \<Rightarrow> False | Some b \<Rightarrow> b),
       nextPage = opt_nextPage options \<rparr>"

definition hasMoreItems :: "int \<Rightarrow> int \<Rightarrow> int \<Rightarrow> bool" where
  "hasMoreItems pg pr tot = (pg * pr < tot)"

definition getNextPage :: "int \<Rightarrow> int \<Rightarrow> int \<Rightarrow> int option" where
  "getNextPage currentPage pr tot =
     (let next = currentPage + 1 in if currentPage * pr < tot then Some next else None)"

section \<open>The response formatter\<close>

datatype tool_text = JsonText jsval | PlainText string

text \<open>
  A tool response has one text block; \<open>JsonText v\<close> is the text
  \<^verbatim>\<open>JSON.stringify(v, null, 2)\<close>, given by its document.
\<close>

record ToolResponse =
  content :: tool_text
  isError :: "bool option"

definition capitalize :: "string \<Rightarrow> string" where
  "capitalize str = (case str of [] \<Rightarrow> [] | c # cs \<Rightarrow> toUpperCase_char c # cs)"

definition newline :: string where
  "newline = [CHR 0x0A]"

definition yes_no :: "jsval \<Rightarrow> string" where
  "yes_no v = (if truthy v then ''Yes'' else ''No'')"

text \<open>\<^verbatim>\<open>`${x.firstName || ''} ${x.lastName || ''}`.trim() || '-'\<close>.\<close>

definition full_name :: "jsobj \<Rightarrow> string" where
  "full_name x =
     (let t = trim (js_String (js_or (field x ''firstName'') (JStr [])) @ '' ''
                    @ js_String (js_or (field x ''lastName'') (JStr [])))
      in if t = [] then ''-'' else t)"

definition formatEmployeesTable :: "jsobj list \<Rightarrow> string" where
  "formatEmployeesTable employees =
     join newline
       ([''| UUID | Name | Email | Status | Onboarded |'', ''|---|---|---|---|---|'']
        @ map (\<lambda>emp.
            ''| '' @ js_String (field emp ''uuid'')
            @ '' | '' @ full_name emp
            @ '' | '' @ js_String (js_or (field emp ''email'') (JStr ''-''))
            @ '' | '' @ js_String
                 (if truthy (field emp ''terminated'') then JStr ''Terminated''
                  else js_or (field emp ''currentEmploymentStatus'') (JStr ''Active''))
            @ '' | '' @ yes_no (field emp ''onboarded'') @ '' |'') employees)"

definition formatContractorsTable :: "jsobj list \<Rightarrow> string" where
  "formatContractorsTable contractors =
     join newline
       ([''| UUID | Name/Business | Type | Email | Active |'', ''|---|---|---|---|---|'']
        @ map (\<lambda>c.
            ''| '' @ js_String (field c ''uuid'')
            @ '' | '' @ (if field c ''type'' = JStr ''Business''
                         then js_String (js_or (field c ''businessName'') (JStr ''-''))
                         else full_name c)
            @ '' | '' @ js_String (js_or (field c ''type'') (JStr ''-''))
            @ '' | '' @ js_String (js_or (field c ''email'') (JStr ''-''))
            @ '' | '' @ yes_no (field c ''isActive'') @ '' |'') contractors)"

definition formatPayrollsTable :: "jsobj list \<Rightarrow> string" where
  "formatPayrollsTable payrolls =
     join newline
       ([''| UUID | Pay Period | Check Date | Processed | Gross Pay |'', ''|---|---|---|---|---|'']
        @ map (\<lambda>p.
            ''| '' @ js_String (js_or (field p ''uuid'') (js_or (field p ''payrollUuid'') (JStr ''-'')))
            @ '' | '' @ (if truthy (field p ''payPeriodStartDate'')
                            \<and> truthy (field p ''payPeriodEndDate'')
                         then js_String (field p ''payPeriodStartDate'') @ '' - ''
                              @ js_String (field p ''payPeriodEndDate'')
                         else ''-'')
            @ '' | '' @ js_String (js_or (field p ''checkDate'') (JStr ''-''))
            @ '' | '' @ yes_no (field p ''processed'')
            @ '' | '' @ (if truthy (opt_get (field p ''totals'') ''grossPay'')
                         then ''$'' @ js_String (get (field p ''totals'') ''grossPay'')
                         else ''-'')
            @ '' |'') payrolls)"

text \<open>A line of a Markdown table starts with a vertical bar.\<close>

definition table_row :: "string \<Rightarrow> bool" where
  "table_row l = (take 1 l = ''|'')"

definition formatGenericTable :: "jsobj list \<Rightarrow> string" where
  "formatGenericTable its =
     (case its of
        [] \<Rightarrow> ''_No items_''
      | first # _ \<Rightarrow>
          (let keys = take 5 (map fst first) in
           join newline
             ([''| '' @ join '' | '' keys @ '' |'',
               ''|'' @ join ''|'' (map (\<lambda>k. ''---'') keys) @ ''|'']
              @ map (\<lambda>record.
                  ''| '' @ join '' | ''
                     (map (\<lambda>k. js_String (js_nullish_or (field record k) (JStr ''-''))) keys)
                  @ '' |'') its)))"

text \<open>
  \<^verbatim>\<open>formatPaginatedAsMarkdown\<close>: \<open>paginated_lines\<close> is the array \<^verbatim>\<open>lines\<close> at the
  \<^verbatim>\<open>return\<close>, which joins it.
\<close>

definition paginated_header :: "jsobj PaginatedResponse \<Rightarrow> string \<Rightarrow> string list" where
  "paginated_header data etype =
     [''## '' @ capitalize etype, []]
     @ [case total data of
          Some t \<Rightarrow> ''**Total:** '' @ show_int t @ '' | **Showing:** '' @ show_nat (count data)
        | None \<Rightarrow> ''**Showing:** '' @ show_nat (count data)]
     @ (if hasMore data
        then [''**More available:** Yes (page: ''
              @ (case nextPage data of None \<Rightarrow> ''undefined'' | Some n \<Rightarrow> show_int n) @ '')'']
        else [])
     @ [[]]"

definition paginated_lines :: "jsobj PaginatedResponse \<Rightarrow> string \<Rightarrow> string list" where
  "paginated_lines data etype =
     (if length (items data) = 0 then
        paginated_header data etype @ [''_No items found._'']
      else
        paginated_header data etype
        @ [if etype = ''employees'' then formatEmployeesTable (items data)
           else if etype = ''contractors'' then formatContractorsTable (items data)
           else if etype = ''payrolls'' then formatPayrollsTable (items data)
           else formatGenericTable (items data)])"

definition formatPaginatedAsMarkdown :: "jsobj PaginatedResponse \<Rightarrow> string \<Rightarrow> string" where
  "formatPaginatedAsMarkdown data etype = join newline (paginated_lines data etype)"

text \<open>
  The data handed to \<^verbatim>\<open>formatResponse\<close> is a paginated collection (an object with an
  \<^verbatim>\<open>items\<close> array) or anything else.
\<close>

datatype payload = Paginated "jsobj PaginatedResponse" | Other jsval

definition payload_value :: "payload \<Rightarrow> jsval" where
  "payload_value d =
     (case d of
        Other v \<Rightarrow> v
      | Paginated r \<Rightarrow>
          JObj [(''items'', JArr (map JObj (items r))),
                (''count'', JNum (int (count r))),
                (''total'', opt_num (total r)),
                (''hasMore'', JBool (hasMore r)),
                (''nextPage'', opt_num (nextPage r))])"

definition formatAsMarkdown :: "env \<Rightarrow> payload \<Rightarrow> string \<Rightarrow> string" where
  "formatAsMarkdown E d etype =
     (case d of
        Paginated r \<Rightarrow> formatPaginatedAsMarkdown r etype
      | Other v \<Rightarrow> env_formatOtherAsMarkdown E v etype)"

definition formatResponse :: "env \<Rightarrow> payload \<Rightarrow> string \<Rightarrow> string \<Rightarrow> ToolResponse" where
  "formatResponse E d format etype =
     (if format = ''markdown'' then
        \<lparr> content = PlainText (formatAsMarkdown E d etype), isError = None \<rparr>
      else
        \<lparr> content = JsonText (JSON_stringify (payload_value d)), isError = None \<rparr>)"


section \<open>The tools\<close>


definition format_ok :: "string option \<Rightarrow> bool" where
  "format_ok f = (case f of None \<Rightarrow> True | Some s \<Rightarrow> s = ''json'' \<or> s = ''markdown'')"


record ListEmployeesArgs =
  arg_companyId :: string
  arg_page :: "int option"
  arg_per :: "int option"
  arg_terminated :: "bool option"
  arg_format :: "string option"

definition page_ok :: "int option \<Rightarrow> bool" where
  "page_ok p = (case p of None \<Rightarrow> True | Some n \<Rightarrow> 1 \<le> n)"

definition per_ok :: "int option \<Rightarrow> bool" where
  "per_ok p = (case p of None \<Rightarrow> True | Some n \<Rightarrow> 1 \<le> n \<and> n \<le> 100)"

definition gusto_list_employees_schema :: "ListEmployeesArgs \<Rightarrow> bool" where
  "gusto_list_employees_schema args =
     (page_ok (arg_page args) \<and> per_ok (arg_per args) \<and> format_ok (arg_format args))"






section \<open>The worker entry point\<close>

definition SERVER_NAME :: string where
  "SERVER_NAME = ''gusto-mcp-server''"

definition SERVER_VERSION :: string where
  "SERVER_VERSION = ''1.0.0''"

record Request =
  pathname :: string
  request_method :: string
  request_headers_get :: "string \<Rightarrow> string option"

datatype response_body = JsonBody jsval | TextBody string

record WorkerResponse =
  response_status :: nat
  response_body :: response_body
  response_content_type :: "string option"

text \<open>
  Modelled from the spec: \<^verbatim>\<open>parseTenantCredentials\<close> and \<^verbatim>\<open>validateCredentials\<close>
  (\<^verbatim>\<open>types/env.ts\<close>) are not among the sources. The extractor reads the access token
  header and the optional API version header; validation fails with a missing-credentials
  error when the access token is absent or empty. The text of that error is not
  specified; it is the parameter \<open>msg\<close>.
\<close>

definition parseTenantCredentials :: "Request \<Rightarrow> TenantCredentials" where
  "parseTenantCredentials req =
     \<lparr> accessToken = request_headers_get req ''X-Gusto-Access-Token'',
       apiVersion = request_headers_get req ''X-Gusto-API-Version'' \<rparr>"

definition validateCredentials :: "string \<Rightarrow> TenantCredentials \<Rightarrow> thrown + unit" where
  "validateCredentials msg credentials =
     (case accessToken credentials of
        None \<Rightarrow> Inl (MissingCredentialsError msg)
      | Some token \<Rightarrow> if token = [] then Inl (MissingCredentialsError msg) else Inr ())"

definition unauthorized_response :: "thrown \<Rightarrow> WorkerResponse" where
  "unauthorized_response error =
     \<lparr> response_status = 401,
       response_body = JsonBody (JSON_stringify (JObj
         [(''error'', JStr ''Unauthorized''),
          (''message'', JStr (error_message error)),
          (''required_headers'', JArr [JStr ''X-Gusto-Access-Token''])])),
       response_content_type = Some ''application/json'' \<rparr>"

definition health_response :: WorkerResponse where
  "health_response =
     \<lparr> response_status = 200,
       response_body = JsonBody (JSON_stringify (JObj
         [(''status'', JStr ''ok''), (''server'', JStr SERVER_NAME)])),
       response_content_type = Some ''application/json'' \<rparr>"

definition sse_response :: WorkerResponse where
  "sse_response =
     \<lparr> response_status = 501,
       response_body = TextBody ''SSE endpoint requires Durable Objects. Enable in wrangler.jsonc.'',
       response_content_type = None \<rparr>"

definition tool_names :: "jsval list" where
  "tool_names =
     [
      JStr ''gusto_test_connection'', JStr ''gusto_get_token_info'',
      JStr ''gusto_get_company'', JStr ''gusto_list_locations'',
      JStr ''gusto_create_location'', JStr ''gusto_list_departments'',
      JStr ''gusto_create_department'', JStr ''gusto_list_admins'',
      JStr ''gusto_list_signatories'', JStr ''gusto_list_company_bank_accounts'',
      JStr ''gusto_list_employees'', JStr ''gusto_get_employee'',
      JStr ''gusto_create_employee'', JStr ''gusto_update_employee'',
      JStr ''gusto_get_employee_onboarding_status'', JStr ''gusto_list_jobs'',
      JStr ''gusto_create_job'', JStr ''gusto_list_compensations'',
      JStr ''gusto_create_compensation'', JStr ''gusto_list_home_addresses'',
      JStr ''gusto_create_home_address'', JStr ''gusto_get_federal_taxes'',
      JStr ''gusto_get_state_taxes'', JStr ''gusto_list_employee_bank_accounts'',
      JStr ''gusto_get_employee_payment_method'', JStr ''gusto_list_terminations'',
      JStr ''gusto_create_termination'', JStr ''gusto_list_garnishments'',
      JStr ''gusto_create_garnishment'', JStr ''gusto_list_employee_forms'',
      JStr ''gusto_list_recurring_reimbursements'',
      JStr ''gusto_create_recurring_reimbursement'', JStr ''gusto_list_contractors'',
      JStr ''gusto_get_contractor'', JStr ''gusto_create_contractor'',
      JStr ''gusto_update_contractor'', JStr ''gusto_delete_contractor'',
      JStr ''gusto_list_contractor_payments'', JStr ''gusto_create_contractor_payment'',
      JStr ''gusto_list_contractor_bank_accounts'', JStr ''gusto_list_contractor_forms'',
      JStr ''gusto_list_payrolls'', JStr ''gusto_get_payroll'',
      JStr ''gusto_calculate_payroll'', JStr ''gusto_submit_payroll'',
      JStr ''gusto_create_off_cycle_payroll'', JStr ''gusto_list_pay_schedules'',
      JStr ''gusto_create_pay_schedule'', JStr ''gusto_list_pay_periods'',
      JStr ''gusto_list_earning_types'', JStr ''gusto_create_earning_type'',
      JStr ''gusto_list_company_forms'', JStr ''gusto_list_notifications'',
      JStr ''gusto_list_supported_benefits'', JStr ''gusto_list_company_benefits'',
      JStr ''gusto_create_company_benefit'', JStr ''gusto_list_employee_benefits'',
      JStr ''gusto_create_employee_benefit'', JStr ''gusto_list_time_off_policies'',
      JStr ''gusto_get_time_off_policy'', JStr ''gusto_create_time_off_policy'',
      JStr ''gusto_add_employees_to_time_off_policy'', JStr ''gusto_get_holiday_pay_policy'',
      JStr ''gusto_list_webhook_subscriptions'', JStr ''gusto_create_webhook_subscription'',
      JStr ''gusto_delete_webhook_subscription'', JStr ''gusto_list_events''
     ]"

definition default_response :: WorkerResponse where
  "default_response =
     \<lparr> response_status = 200,
       response_body = JsonBody (JSON_stringify (JObj
         [(''name'', JStr SERVER_NAME),
          (''version'', JStr SERVER_VERSION),
          (''description'', JStr ''Multi-tenant Gusto Embedded Payroll MCP Server''),
          (''endpoints'', JObj
             [(''mcp'', JStr ''/mcp (POST) - Streamable HTTP MCP endpoint''),
              (''health'', JStr ''/health - Health check'')]),
          (''authentication'', JObj
             [(''description'', JStr ''Pass tenant credentials via request headers''),
              (''required_headers'', JObj
                 [(''X-Gusto-Access-Token'', JStr ''OAuth 2.0 access token for Gusto API'')]),
              (''optional_headers'', JObj
                 [(''X-Gusto-API-Version'', JStr ''Override the default API version'')])]),
          (''tools'', JArr tool_names)])),
       response_content_type = Some ''application/json'' \<rparr>"

text \<open>
  The \<^verbatim>\<open>fetch\<close> handler of the worker. \<open>mcp\<close> is the framework's handler for the server
  built for the request's credentials (\<^verbatim>\<open>createMcpHandler(createStatelessServer(credentials))\<close>):
  it dispatches to the tools, which call the upstream API through the client, so it
  takes and returns the log of upstream calls.
\<close>

definition fetch ::
  "(TenantCredentials \<Rightarrow> Request \<Rightarrow> http_call list \<Rightarrow> WorkerResponse \<times> http_call list)
     \<Rightarrow> string \<Rightarrow> Request \<Rightarrow> http_call list \<Rightarrow> WorkerResponse \<times> http_call list" where
  "fetch mcp msg req log =
     (if pathname req = ''/health'' then (health_response, log)
      else if pathname req = ''/mcp'' \<and> request_method req = ''POST'' then
        (let credentials = parseTenantCredentials req in
         case validateCredentials msg credentials of
           Inl error \<Rightarrow> (unauthorized_response error, log)
         | Inr u \<Rightarrow> mcp credentials req log)
      else if pathname req = ''/sse'' then (sse_response, log)
      else (default_response, log))"

section \<open>Example data\<close>

text \<open>
  \<^verbatim>\<open>parseInt(s, 10)\<close> on ASCII text: leading white space is skipped, then an optional sign
  and the longest run of decimal digits are read; without a digit the result is
  \<^verbatim>\<open>NaN\<close>.
\<close>

definition is_digit :: "char \<Rightarrow> bool" where
  "is_digit c = (c \<in> set ''0123456789'')"

definition digit_value :: "char \<Rightarrow> nat" where
  "digit_value c = length (takeWhile (\<lambda>d. d \<noteq> c) ''0123456789'')"

definition parseInt_decimal :: "string \<Rightarrow> js_number" where
  "parseInt_decimal s =
     (let t = dropWhile is_space s;
          negative = (take 1 t = ''-'');
          u = (if take 1 t = ''-'' \<or> take 1 t = ''+'' then drop 1 t else t);
          ds = takeWhile is_digit u
      in if ds = [] then NaN
         else Number ((if negative then - 1 else 1)
                      * int (foldl (\<lambda>acc c. 10 * acc + digit_value c) 0 ds)))"

text \<open>\<^verbatim>\<open>JSON.parse\<close> on the three bodies the examples use; any other text is refused.\<close>

definition example_JSON_parse :: "string \<Rightarrow> string + jsval" where
  "example_JSON_parse s =
     (if s = ''{\"message\":\"Not found\"}'' then Inr (JObj [(''message'', JStr ''Not found'')])
      else if s = ''[]'' then Inr (JArr [])
      else if s = ''[{},{}]'' then Inr (JArr [JObj [], JObj []])
      else Inl ''Unexpected token'')"

text \<open>An environment whose upstream API answers every call with the same response.\<close>

definition example_env :: "Response \<Rightarrow> env" where
  "example_env response =
     \<lparr> env_fetch = (\<lambda>call. Inr response),
       env_JSON_parse = example_JSON_parse,
       env_parseInt = parseInt_decimal,
       env_type_error = (\<lambda>v. ''Cannot read properties''),
       env_formatOtherAsMarkdown = (\<lambda>v entityType. js_String v),
       env_formatErrorForLogging = (\<lambda>error. JObj [(''retryable'', JBool (retryable error))]) \<rparr>"

definition example_response :: "nat \<Rightarrow> string option \<Rightarrow> string \<Rightarrow> Response" where
  "example_response code retry_after body =
     \<lparr> status = code,
       headers_get = (\<lambda>name. if name = ''Retry-After'' then retry_after else None),
       body_text = body \<rparr>"

definition example_credentials :: TenantCredentials where
  "example_credentials = \<lparr> accessToken = Some ''token-1'', apiVersion = None \<rparr>"

definition example_request :: "string \<Rightarrow> string \<Rightarrow> string option \<Rightarrow> Request" where
  "example_request path m token =
     \<lparr> pathname = path,
       request_method = m,
       request_headers_get = (\<lambda>name. if name = ''X-Gusto-Access-Token'' then token else None) \<rparr>"

text \<open>A framework handler whose tool makes one call to the upstream API.\<close>

definition example_mcp ::
  "TenantCredentials \<Rightarrow> Request \<Rightarrow> http_call list \<Rightarrow> WorkerResponse \<times> http_call list" where
  "example_mcp credentials req log =
     (\<lparr> response_status = 200, response_body = TextBody ''handled'',
        response_content_type = None \<rparr>,
      snd (request (example_env (example_response 200 None ''[]'')) credentials
             ''/token_info'' no_options log))"


text \<open>The employee that \<^verbatim>\<open>mapEmployee\<close> makes of the empty wire object \<^verbatim>\<open>{}\<close>.\<close>

definition example_employee :: jsobj where
  "example_employee =
     [(''uuid'', JUndefined), (''companyUuid'', JUndefined), (''firstName'', JUndefined),
      (''middleName'', JUndefined), (''lastName'', JUndefined), (''email'', JUndefined),
      (''dateOfBirth'', JUndefined), (''ssn'', JUndefined), (''phone'', JUndefined),
      (''preferredFirstName'', JUndefined), (''twoPercentShareholder'', JUndefined),
      (''onboarded'', JUndefined), (''department'', JUndefined), (''terminated'', JUndefined),
      (''terminationDate'', JUndefined), (''currentEmploymentStatus'', JUndefined),
      (''workEmail'', JUndefined), (''homeAddress'', JUndefined), (''jobs'', JUndefined),
      (''garnishments'', JUndefined), (''customFields'', JUndefined),
      (''paymentMethod'', JUndefined), (''hasDirectDeposit'', JUndefined)]"

text \<open>A page request: page 3 with two items per page.\<close>

definition example_params :: "ListEmployeesParams option" where
  "example_params = Some \<lparr> page = Some 3, per = Some 2, terminated = None \<rparr>"


definition example_empty_page :: "jsobj PaginatedResponse" where
  "example_empty_page =
     \<lparr> items = [], count = 0, total = None, hasMore = False, nextPage = None \<rparr>"


section \<open>Properties of the request gateway\<close>

lemma getAuthHeaders_token:
  "accessToken c = Some token \<Longrightarrow> token \<noteq> [] \<Longrightarrow>
   getAuthHeaders c = Inr [(''Authorization'', ''Bearer '' @ token), (''Content-Type'', ''application/json'')]"
  by (simp add: getAuthHeaders_def)



lemma request_answered:
  assumes "accessToken c = Some token" "token \<noteq> []" "\<forall>call. env_fetch E call = Inr response"
  shows "\<exists>call. request E c endpoint options log = (handle_response E response, log @ [call])
          \<and> call_url call = API_BASE_URL @ endpoint
          \<and> call_method call = init_method options
          \<and> call_body call = init_body options"
  using assms by (simp add: request_def getAuthHeaders_token Let_def)

lemma handle_429:
  assumes "status response = 429"
  shows "handle_response E response = Inl (RateLimitError ''Rate limit exceeded'' (retryAfter_seconds E response))"
  using assms by (simp add: handle_response_def)


text \<open>
  Claim C4. A response with status 429 makes the gateway fail with an error of kind
  RateLimit that is retryable and carries the retry delay: the parsed value of the
  \<^verbatim>\<open>Retry-After\<close> header, and 60 when the header is absent (or empty, which the code's
  test \<^verbatim>\<open>retryAfter ? ... : 60\<close> treats alike).
\<close>

theorem rate_limit_carries_retry_after:
  assumes "status response = 429"
    and "accessToken credentials = Some token" and "token \<noteq> []"
    and "\<forall>call. env_fetch E call = Inr response"
  shows "\<exists>e call. request E credentials endpoint options log = (Inl e, log @ [call])
           \<and> kind e = RateLimit \<and> retryable e
           \<and> retryAfterSeconds e =
               Some (case headers_get response ''Retry-After'' of
                       None \<Rightarrow> Number 60
                     | Some retryAfter \<Rightarrow>
                         if retryAfter = [] then Number 60 else env_parseInt E retryAfter)"
proof -
  obtain call where "request E credentials endpoint options log
      = (handle_response E response, log @ [call])"
    using request_answered [OF assms(2,3,4)] by blast
  then show ?thesis
    by (simp add: handle_429 [OF assms(1)] retryAfter_seconds_def)
qed

text \<open>The example of the specification: \<^verbatim>\<open>Retry-After: 30\<close> gives 30 seconds.\<close>

lemma parseInt_30: "parseInt_decimal ''30'' = Number 30"
  by (simp add: parseInt_decimal_def is_space_def is_digit_def digit_value_def)

theorem rate_limit_carries_retry_after_witness:
  "status (example_response 429 (Some ''30'') []) = 429
   \<and> accessToken example_credentials = Some ''token-1'' \<and> ''token-1'' \<noteq> []
   \<and> (\<forall>call. env_fetch (example_env (example_response 429 (Some ''30'') [])) call
                = Inr (example_response 429 (Some ''30'') []))
   \<and> (\<exists>e call. request (example_env (example_response 429 (Some ''30'') [])) example_credentials
                  ''/companies/c1'' no_options [] = (Inl e, [] @ [call])
         \<and> kind e = RateLimit \<and> retryable e \<and> retryAfterSeconds e = Some (Number 30))"
proof -
  have 1: "status (example_response 429 (Some ''30'') []) = 429"
    by (simp add: example_response_def)
  have 2: "accessToken example_credentials = Some ''token-1''"
    by (simp add: example_credentials_def)
  have 3: "''token-1'' \<noteq> []" by simp
  have 4: "\<forall>call. env_fetch (example_env (example_response 429 (Some ''30'') [])) call
                = Inr (example_response 429 (Some ''30'') [])"
    by (simp add: example_env_def)
  have 5: "headers_get (example_response 429 (Some ''30'') []) ''Retry-After'' = Some ''30''"
    by (simp add: example_response_def)
  have 6: "env_parseInt (example_env (example_response 429 (Some ''30'') [])) = parseInt_decimal"
    by (simp add: example_env_def)
  show ?thesis
    using rate_limit_carries_retry_after [OF 1 2 3 4, of "''/companies/c1''" no_options "[]"]
    by (simp add: 1 2 4 5 6 parseInt_30)
qed







section \<open>Properties of the client and the tools\<close>







lemma example_env_answers: "\<forall>call. env_fetch (example_env R) call = Inr R"
  by (simp add: example_env_def)






section \<open>Properties of the worker entry point\<close>




lemma fetch_mcp_with_token:
  assumes "request_headers_get req ''X-Gusto-Access-Token'' = Some token" and "token \<noteq> []"
    and "pathname req = ''/mcp''" and "request_method req = ''POST''"
  shows "fetch mcp msg req log = mcp (parseTenantCredentials req) req log"
  using assms by (simp add: fetch_def Let_def validateCredentials_def parseTenantCredentials_def)





text \<open>With a token the same request is dispatched, and the example handler calls upstream.\<close>

lemma example_mcp_calls_upstream:
  "length (snd (fetch example_mcp msg (example_request ''/mcp'' ''POST'' (Some ''token-1'')) [])) = 1"
proof -
  let ?req = "example_request ''/mcp'' ''POST'' (Some ''token-1'')"
  have "fetch example_mcp msg ?req [] = example_mcp (parseTenantCredentials ?req) ?req []"
    by (rule fetch_mcp_with_token [where token = "''token-1''"]) (simp_all add: example_request_def)
  moreover have "accessToken (parseTenantCredentials ?req) = Some ''token-1''"
    by (simp add: parseTenantCredentials_def example_request_def)
  ultimately show ?thesis
    using request_answered [OF _ _ example_env_answers, of "parseTenantCredentials ?req" "''token-1''"
        "example_response 200 None ''[]''" "''/token_info''" no_options "[]"]
    by (auto simp: example_mcp_def)
qed

section \<open>Properties of the request bodies\<close>



























section \<open>Properties of pagination\<close>

lemma map_all_length: "map_all f xs = Inr ys \<Longrightarrow> length ys = length xs"
  by (induction xs arbitrary: ys) (auto split: sum.splits)

lemma listEmployees_result:
  assumes "listEmployees E credentials companyId params log = (Inr r, log')"
  shows "count r = length (items r)
       \<and> total r = None
       \<and> hasMore r = (int (length (items r)) = num_or (params_per params) 25)
       \<and> nextPage r = (if int (length (items r)) = num_or (params_per params) 25
                        then Some (num_or (params_page params) 1 + 1) else None)"
  using assms
  by (auto simp: listEmployees_def split: prod.splits sum.splits jsval.splits)

lemma listEmployees_page:
  assumes "listEmployees E credentials companyId params log = (Inr r, log')"
  shows "\<exists>es. fst (request E credentials
                     (''/companies/'' @ companyId @ ''/employees?''
                        @ URLSearchParams_toString (listEmployees_queryParams params))
                     no_options log) = Inr (JArr es)
              \<and> length (items r) = length es"
  using assms
  by (auto simp: listEmployees_def map_all_length split: prod.splits sum.splits jsval.splits)


lemma num_or_given: "x \<noteq> Some 0 \<Longrightarrow> num_or x d = (case x of None \<Rightarrow> d | Some n \<Rightarrow> n)"
  by (simp add: num_or_def split: option.splits)

lemma listEmployees_page_flags:
  assumes "listEmployees E credentials companyId params log = (Inr r, log')"
    and "params_per params \<noteq> Some 0" and "params_page params \<noteq> Some 0"
  shows "(\<exists>es. fst (request E credentials
                     (''/companies/'' @ companyId @ ''/employees?''
                        @ URLSearchParams_toString (listEmployees_queryParams params))
                     no_options log) = Inr (JArr es)
              \<and> length (items r) = length es)
       \<and> (int (length (items r)) = (case params_per params of None \<Rightarrow> 25 | Some p \<Rightarrow> p) \<longrightarrow>
            hasMore r
          \<and> nextPage r = Some ((case params_page params of None \<Rightarrow> 1 | Some p \<Rightarrow> p) + 1))
       \<and> (int (length (items r)) < (case params_per params of None \<Rightarrow> 25 | Some p \<Rightarrow> p) \<longrightarrow>
            \<not> hasMore r \<and> nextPage r = None)"
proof -
  note R = listEmployees_result [OF assms(1)]
  have per: "num_or (params_per params) 25 = (case params_per params of None \<Rightarrow> 25 | Some p \<Rightarrow> p)"
    by (rule num_or_given [OF assms(2)])
  have pg: "num_or (params_page params) 1 = (case params_page params of None \<Rightarrow> 1 | Some p \<Rightarrow> p)"
    by (rule num_or_given [OF assms(3)])
  have h: "hasMore r = (int (length (items r)) = (case params_per params of None \<Rightarrow> 25 | Some p \<Rightarrow> p))"
    using R per by simp
  have n: "nextPage r = (if int (length (items r)) = (case params_per params of None \<Rightarrow> 25 | Some p \<Rightarrow> p)
                        then Some ((case params_page params of None \<Rightarrow> 1 | Some p \<Rightarrow> p) + 1) else None)"
    using R per pg by simp
  show ?thesis
    using listEmployees_page [OF assms(1)] h n by auto
qed

lemma schema_excludes_zero:
  "gusto_list_employees_schema args \<Longrightarrow>
   arg_per args \<noteq> Some 0 \<and> arg_page args \<noteq> Some 0"
  by (auto simp: gusto_list_employees_schema_def per_ok_def page_ok_def)


text \<open>Every call the employee-list tool makes satisfies the two hypotheses.\<close>

lemma gusto_list_employees_page_flags:
  assumes "gusto_list_employees_schema args"
    and "listEmployees E credentials (arg_companyId args)
           (Some \<lparr> page = arg_page args, per = arg_per args,
                    terminated = arg_terminated args \<rparr>) log = (Inr r, log')"
  shows "(\<exists>es. fst (request E credentials
                     (''/companies/'' @ arg_companyId args @ ''/employees?''
                        @ URLSearchParams_toString (listEmployees_queryParams
                            (Some \<lparr> page = arg_page args, per = arg_per args,
                                     terminated = arg_terminated args \<rparr>)))
                     no_options log) = Inr (JArr es)
              \<and> length (items r) = length es)
       \<and> (int (length (items r)) = (case arg_per args of None \<Rightarrow> 25 | Some p \<Rightarrow> p) \<longrightarrow>
            hasMore r
          \<and> nextPage r = Some ((case arg_page args of None \<Rightarrow> 1 | Some p \<Rightarrow> p) + 1))
       \<and> (int (length (items r)) < (case arg_per args of None \<Rightarrow> 25 | Some p \<Rightarrow> p) \<longrightarrow>
            \<not> hasMore r \<and> nextPage r = None)"
proof -
  let ?params = "Some \<lparr> page = arg_page args, per = arg_per args,
                        terminated = arg_terminated args \<rparr>"
  have per: "params_per ?params = arg_per args" and pg: "params_page ?params = arg_page args"
    by (simp_all add: params_per_def params_page_def)
  note z = schema_excludes_zero [OF assms(1)]
  have "params_per ?params \<noteq> Some 0" and "params_page ?params \<noteq> Some 0"
    using z by (simp_all add: per pg)
  from listEmployees_page_flags [OF assms(2) this]
  show ?thesis unfolding per pg .
qed

lemma example_page_run:
  "fst (listEmployees (example_env (example_response 200 None ''[{},{}]'')) example_credentials
          ''c1'' example_params [])
     = Inr \<lparr> items = [example_employee, example_employee],
             count = 2, total = None, hasMore = True, nextPage = Some 4 \<rparr>"
  by (simp add: listEmployees_def request_def getAuthHeaders_def example_credentials_def
        example_env_def example_response_def handle_response_def ok_def example_JSON_parse_def
        nullish_def num_or_def params_per_def params_page_def example_params_def Let_def field_def
        mapEmployee_def opt_map_def example_employee_def)










text \<open>
  Claim C8, as amended. In every paginated response the program builds, \<^verbatim>\<open>count\<close> is the
  number of items. The helper \<^verbatim>\<open>createPaginatedResponse\<close> derives nothing else: \<^verbatim>\<open>total\<close>,
  \<^verbatim>\<open>hasMore\<close> (false when not given) and \<^verbatim>\<open>nextPage\<close> are the caller's options. The
  response of \<^verbatim>\<open>listEmployees\<close> is built by the client itself, which derives \<^verbatim>\<open>hasMore\<close>
  and \<^verbatim>\<open>nextPage\<close> from the number of items and the requested page and page size.
\<close>

theorem paginated_response_count_and_flags:
  "count (createPaginatedResponse its options)
     = length (items (createPaginatedResponse its options))
   \<and> items (createPaginatedResponse its options) = its
   \<and> total (createPaginatedResponse its options) = opt_total options
   \<and> hasMore (createPaginatedResponse its options) = (opt_hasMore options = Some True)
   \<and> nextPage (createPaginatedResponse its options) = opt_nextPage options
   \<and> count (emptyPaginatedResponse :: jsobj PaginatedResponse)
       = length (items (emptyPaginatedResponse :: jsobj PaginatedResponse))
   \<and> (\<forall>r log'. listEmployees E credentials companyId params log = (Inr r, log') \<longrightarrow>
          count r = length (items r)
        \<and> hasMore r = (int (length (items r)) = num_or (params_per params) 25)
        \<and> nextPage r = (if hasMore r then Some (num_or (params_page params) 1 + 1) else None))"
proof -
  have 1: "count (createPaginatedResponse its options)
     = length (items (createPaginatedResponse its options))
   \<and> items (createPaginatedResponse its options) = its
   \<and> total (createPaginatedResponse its options) = opt_total options
   \<and> hasMore (createPaginatedResponse its options) = (opt_hasMore options = Some True)
   \<and> nextPage (createPaginatedResponse its options) = opt_nextPage options"
    by (simp add: createPaginatedResponse_def split: option.splits)
  have 2: "count (emptyPaginatedResponse :: jsobj PaginatedResponse)
       = length (items (emptyPaginatedResponse :: jsobj PaginatedResponse))"
    by (simp add: emptyPaginatedResponse_def)
  have 3: "\<forall>r log'. listEmployees E credentials companyId params log = (Inr r, log') \<longrightarrow>
          count r = length (items r)
        \<and> hasMore r = (int (length (items r)) = num_or (params_per params) 25)
        \<and> nextPage r = (if hasMore r then Some (num_or (params_page params) 1 + 1) else None)"
  proof (intro allI impI)
    fix r log'
    assume "listEmployees E credentials companyId params log = (Inr r, log')"
    from listEmployees_result [OF this]
    show "count r = length (items r)
        \<and> hasMore r = (int (length (items r)) = num_or (params_per params) 25)
        \<and> nextPage r = (if hasMore r then Some (num_or (params_page params) 1 + 1) else None)"
      by simp
  qed
  from 1 2 3 show ?thesis by blast
qed

theorem paginated_response_count_and_flags_witness:
  "listEmployees (example_env (example_response 200 None ''[{},{}]'')) example_credentials
       ''c1'' example_params []
     = (Inr \<lparr> items = [example_employee, example_employee],
              count = 2, total = None, hasMore = True, nextPage = Some 4 \<rparr>,
        snd (listEmployees (example_env (example_response 200 None ''[{},{}]''))
               example_credentials ''c1'' example_params []))
   \<and> count \<lparr> items = [example_employee, example_employee],
              count = 2, total = None :: int option, hasMore = True, nextPage = Some (4::int) \<rparr>
       = length (items \<lparr> items = [example_employee, example_employee],
                         count = 2, total = None :: int option, hasMore = True,
                         nextPage = Some (4::int) \<rparr>)"
proof -
  let ?r = "\<lparr> items = [example_employee, example_employee],
              count = 2, total = None, hasMore = True, nextPage = Some (4::int) \<rparr>"
  let ?run = "listEmployees (example_env (example_response 200 None ''[{},{}]''))
                example_credentials ''c1'' example_params []"
  have 1: "?run = (Inr ?r, snd ?run)"
    using example_page_run by (simp add: prod_eq_iff)
  have "\<forall>r log'. ?run = (Inr r, log') \<longrightarrow>
          count r = length (items r)
        \<and> hasMore r = (int (length (items r)) = num_or (params_per example_params) 25)
        \<and> nextPage r = (if hasMore r then Some (num_or (params_page example_params) 1 + 1) else None)"
    using paginated_response_count_and_flags
            [of "[]::jsobj list" "\<lparr> opt_total = None, opt_hasMore = None, opt_nextPage = None \<rparr>"
                "example_env (example_response 200 None ''[{},{}]'')" example_credentials
                "''c1''" example_params "[]"]
    by (elim conjE)
  with 1 have "count ?r = length (items ?r)" by blast
  with 1 show ?thesis by (intro conjI)
qed

text \<open>
  The claim as first stated has the helper derive \<^verbatim>\<open>hasMore\<close> and \<^verbatim>\<open>nextPage\<close>, never
  taking them from its caller. For the same (empty) list of items the helper returns
  whatever flags the caller passes.
\<close>

theorem caller_supplied_flags_counterexample:
  "hasMore (createPaginatedResponse ([] :: jsobj list)
            \<lparr> opt_total = None, opt_hasMore = Some True, opt_nextPage = Some 7 \<rparr>)
   \<and> nextPage (createPaginatedResponse ([] :: jsobj list)
            \<lparr> opt_total = None, opt_hasMore = Some True, opt_nextPage = Some 7 \<rparr>) = Some 7
   \<and> \<not> hasMore (createPaginatedResponse ([] :: jsobj list)
            \<lparr> opt_total = None, opt_hasMore = None, opt_nextPage = None \<rparr>)
   \<and> nextPage (createPaginatedResponse ([] :: jsobj list)
            \<lparr> opt_total = None, opt_hasMore = None, opt_nextPage = None \<rparr>) = None"
  by (simp add: createPaginatedResponse_def)

text \<open>
  Claim C7, as amended. \<^verbatim>\<open>normalizePaginationParams\<close> returns the smaller of the cap
  (\<^verbatim>\<open>maxPer\<close>, 100 when not given) and the requested page size, where a page size that is
  not given, or is 0, counts as 25. So the result never exceeds the cap, and a request
  without a page size gets 25 only when the cap is at least 25. The two examples of the
  specification hold.
\<close>

theorem page_size_clamped:
  "norm_per (normalizePaginationParams params maxPer)
     = min (case (case params of None \<Rightarrow> None | Some q \<Rightarrow> per q) of
              None \<Rightarrow> 25 | Some n \<Rightarrow> if n \<noteq> 0 then n else 25)
           (case maxPer of None \<Rightarrow> 100 | Some m \<Rightarrow> m)
   \<and> norm_per (normalizePaginationParams params maxPer)
       \<le> (case maxPer of None \<Rightarrow> 100 | Some m \<Rightarrow> m)
   \<and> norm_page (normalizePaginationParams params maxPer)
       = (case params of None \<Rightarrow> None | Some q \<Rightarrow> page q)
   \<and> norm_per (normalizePaginationParams (Some \<lparr> page = None, per = Some 500 \<rparr>) (Some 100)) = 100
   \<and> norm_per (normalizePaginationParams (Some \<lparr> page = None, per = None \<rparr>) (Some 100)) = 25"
  by (simp add: normalizePaginationParams_def num_or_def PAGINATION_DEFAULTS_per_def
        PAGINATION_DEFAULTS_maxPer_def split: option.splits)

theorem page_size_clamped_witness:
  "norm_per (normalizePaginationParams (Some \<lparr> page = Some 2, per = Some 40 \<rparr>) None) = 40
   \<and> norm_per (normalizePaginationParams None (Some 10)) = 10"
  using page_size_clamped [of "Some \<lparr> page = Some 2, per = Some 40 \<rparr>" None]
        page_size_clamped [of None "Some 10"]
  by simp

text \<open>
  The claim as first stated gives 25 for every request without a page size, and the
  smaller of request and cap for every requested size. With a cap of 10 the default is
  10, and a requested size of 0 gives 25.
\<close>

theorem default_page_size_counterexample:
  "norm_per (normalizePaginationParams (Some \<lparr> page = None, per = None \<rparr>) (Some 10)) = 10
   \<and> norm_per (normalizePaginationParams (Some \<lparr> page = None, per = None \<rparr>) (Some 10)) \<noteq> 25
   \<and> norm_per (normalizePaginationParams (Some \<lparr> page = None, per = Some 0 \<rparr>) (Some 100)) = 25
   \<and> norm_per (normalizePaginationParams (Some \<lparr> page = None, per = Some 0 \<rparr>) (Some 100))
       \<noteq> min 0 100"
  by (simp add: normalizePaginationParams_def num_or_def PAGINATION_DEFAULTS_per_def)

section \<open>Properties of the Markdown rendering\<close>

lemma header_no_table_row: "l \<in> set (paginated_header data etype) \<Longrightarrow> \<not> table_row l"
  by (auto simp: paginated_header_def table_row_def split: option.splits if_splits)

lemma paginated_lines_empty:
  "items data = [] \<Longrightarrow>
   paginated_lines data etype = paginated_header data etype @ [''_No items found._'']"
  by (simp add: paginated_lines_def)

text \<open>
  Claim C9. For a paginated collection without items the Markdown rendering is the header
  (title, counts, the \<^verbatim>\<open>More available\<close> line when \<^verbatim>\<open>hasMore\<close> is set) followed by the
  notice \<^verbatim>\<open>_No items found._\<close> as its last line, and none of its lines is a table row:
  the function returns before it chooses a table.
\<close>

theorem empty_collection_renders_notice:
  assumes "items data = []"
  shows "paginated_lines data etype
           = paginated_header data etype @ [''_No items found._'']
       \<and> formatPaginatedAsMarkdown data etype
           = join newline (paginated_header data etype @ [''_No items found._''])
       \<and> last (paginated_lines data etype) = ''_No items found._''
       \<and> (\<forall>l \<in> set (paginated_lines data etype). \<not> table_row l)
       \<and> formatResponse E (Paginated data) ''markdown'' etype
           = \<lparr> content = PlainText
                 (join newline (paginated_header data etype @ [''_No items found._''])),
               isError = None \<rparr>"
proof -
  note e = paginated_lines_empty [OF assms, of etype]
  have 2: "formatPaginatedAsMarkdown data etype
           = join newline (paginated_header data etype @ [''_No items found._''])"
    by (simp add: formatPaginatedAsMarkdown_def e)
  have 3: "last (paginated_lines data etype) = ''_No items found._''"
    by (simp add: e)
  have 4: "\<forall>l \<in> set (paginated_lines data etype). \<not> table_row l"
    using header_no_table_row by (auto simp: e table_row_def)
  have 5: "formatResponse E (Paginated data) ''markdown'' etype
           = \<lparr> content = PlainText
                 (join newline (paginated_header data etype @ [''_No items found._''])),
               isError = None \<rparr>"
    by (simp add: formatResponse_def formatAsMarkdown_def 2)
  from e 2 3 4 5 show ?thesis by (intro conjI)
qed

lemma example_empty_header:
  "paginated_header example_empty_page ''employees'' = [''## Employees'', [], ''**Showing:** 0'', []]"
  by (simp add: paginated_header_def example_empty_page_def capitalize_def toUpperCase_char_def
        char_of_eq_iff show_nat.simps digit_char_def)

theorem empty_collection_renders_notice_witness:
  "items example_empty_page = []
   \<and> formatPaginatedAsMarkdown example_empty_page ''employees''
       = ''## Employees'' @ newline @ newline @ ''**Showing:** 0'' @ newline @ newline
         @ ''_No items found._''"
proof -
  have i: "items example_empty_page = []" by (simp add: example_empty_page_def)
  note T = empty_collection_renders_notice [OF i, of "''employees''"]
  have "formatPaginatedAsMarkdown example_empty_page ''employees''
       = ''## Employees'' @ newline @ newline @ ''**Showing:** 0'' @ newline @ newline
         @ ''_No items found._''"
    using T [THEN conjunct2, THEN conjunct1] by (simp add: example_empty_header)
  with i show ?thesis by (intro conjI)
qed

text \<open>With at least one item the last element of the rendering is a table.\<close>

lemma join_starts:
  "x \<noteq> [] \<Longrightarrow> take 1 (join sep (x # xs)) = take 1 x"
  by (cases xs) (simp_all, cases x, simp_all)

lemma nonempty_collection_renders_table:
  assumes "items data \<noteq> []"
  shows "table_row (last (paginated_lines data etype))"
proof -
  obtain first rest where its: "items data = first # rest"
    using assms by (cases "items data") auto
  have e: "table_row (formatEmployeesTable (items data))"
    by (simp add: formatEmployeesTable_def table_row_def join_starts)
  have c: "table_row (formatContractorsTable (items data))"
    by (simp add: formatContractorsTable_def table_row_def join_starts)
  have p: "table_row (formatPayrollsTable (items data))"
    by (simp add: formatPayrollsTable_def table_row_def join_starts)
  have g: "table_row (formatGenericTable (items data))"
    by (simp add: formatGenericTable_def its table_row_def join_starts Let_def)
  show ?thesis
    using assms e c p g by (simp add: paginated_lines_def)
qed

end
